theory Spec2Isabelle
  imports Main "HOL-Library.Word"
begin

unbundle bit_operations_syntax

section \<open>Value types\<close>

text \<open>
  The scalar types of Magnum that \<^verbatim>\<open>Phong.h\<close> mentions. \<^verbatim>\<open>UnsignedByte\<close> is an 8-bit
  unsigned integer; \<^verbatim>\<open>Int\<close> is a 32-bit two's complement integer (read with \<open>sint\<close>),
  named \<open>Int32\<close> here.
  A \<^verbatim>\<open>Float\<close> is kept as its 32-bit pattern: the shader class only stores and forwards
  floats, it never computes with them. Vectors, colours and matrices are tuples of
  floats (a matrix is the tuple of its column vectors); a \<^verbatim>\<open>Color3\<close> is a
  \<^verbatim>\<open>Vector3\<close> of floats. A texture object is identified by its name (a 32-bit id).
\<close>

type_synonym UnsignedByte = "8 word"
type_synonym Int32 = "32 word"
type_synonym Float = "32 word"
type_synonym Vector3 = "Float \<times> Float \<times> Float"
type_synonym Color3 = Vector3
type_synonym Vector4 = "Float \<times> Float \<times> Float \<times> Float"
type_synonym Matrix3x3 = "Vector3 \<times> Vector3 \<times> Vector3"
type_synonym Matrix4 = "Vector4 \<times> Vector4 \<times> Vector4 \<times> Vector4"
type_synonym Texture2D = "32 word"

section \<open>Flags\<close>

text \<open>
  \<^verbatim>\<open>enum class Flag: UnsignedByte\<close> with its three enumerators and their values
  \<^verbatim>\<open>1 << 0\<close>, \<^verbatim>\<open>1 << 1\<close>, \<^verbatim>\<open>1 << 2\<close>.
\<close>

datatype Flag = AmbientTexture | DiffuseTexture | SpecularTexture

fun Flag_value :: "Flag \<Rightarrow> UnsignedByte" where
  "Flag_value AmbientTexture = push_bit 0 1"
| "Flag_value DiffuseTexture = push_bit 1 1"
| "Flag_value SpecularTexture = push_bit 2 1"

text \<open>
  \<^verbatim>\<open>typedef Containers::EnumSet<Flag, UnsignedByte> Flags\<close>: a flag set is the byte that
  holds the union of its flags' bits.
\<close>

type_synonym Flags = UnsignedByte

text \<open>
  Modelled from the spec: \<^verbatim>\<open>Containers::EnumSet\<close> and the operators that
  \<^verbatim>\<open>CORRADE_ENUMSET_OPERATORS\<close> declares come from the Corrade library and are not part
  of \<^verbatim>\<open>Phong.h\<close>. The spec describes a flag as "a bit in a small bitset" with
  "explicit union/intersection/membership operations": \<^verbatim>\<open>set & flag\<close> is the bitwise
  intersection.
\<close>

definition EnumSet_and :: "Flags \<Rightarrow> Flag \<Rightarrow> Flags" where
  "EnumSet_and fs f = fs AND Flag_value f"

text \<open>
  Modelled from the spec: the conversion of a flag set to \<^verbatim>\<open>bool\<close> that \<^verbatim>\<open>if\<close> and \<^verbatim>\<open>!\<close>
  apply (Corrade's \<^verbatim>\<open>EnumSet\<close>, not part of \<^verbatim>\<open>Phong.h\<close>): true for a set that is not
  empty, the spec's membership test when the set is the intersection with one flag.
\<close>

definition EnumSet_bool :: "Flags \<Rightarrow> bool" where
  "EnumSet_bool fs = (fs \<noteq> 0)"

text \<open>
  Membership of a flag in a flag set, for stating properties: the flag's bit position
  is set in the byte.
\<close>

fun flag_bit :: "Flag \<Rightarrow> nat" where
  "flag_bit AmbientTexture = 0"
| "flag_bit DiffuseTexture = 1"
| "flag_bit SpecularTexture = 2"

definition has_flag :: "Flags \<Rightarrow> Flag \<Rightarrow> bool" where
  "has_flag fs f = bit fs (flag_bit f)"

section \<open>The shader object and the state it acts on\<close>

text \<open>
  The private members of \<^verbatim>\<open>class Phong\<close>: nine uniform locations and the flag set
  (\<^verbatim>\<open>_flags\<close> in the source).
\<close>

record Phong =
  transformationMatrixUniform :: Int32
  projectionMatrixUniform :: Int32
  normalMatrixUniform :: Int32
  lightUniform :: Int32
  diffuseColorUniform :: Int32
  ambientColorUniform :: Int32
  specularColorUniform :: Int32
  lightColorUniform :: Int32
  shininessUniform :: Int32
  flags_member :: Flags

text \<open>
  The values a uniform can hold, one constructor per overload of \<^verbatim>\<open>setUniform\<close> that
  the setters use.
\<close>

datatype uniform_value =
    UFloat Float
  | UVector3 Vector3
  | UMatrix3x3 Matrix3x3
  | UMatrix4 Matrix4

text \<open>
  A setter is a non-const member function returning \<^verbatim>\<open>*this\<close>. Its model takes and
  returns the whole state it could change: the object itself, the uniform storage of
  the linked program (location to value) and the texture bound to each binding unit.
\<close>

record State =
  self :: Phong
  uniforms :: "Int32 \<rightharpoonup> uniform_value"
  textureUnits :: "Int32 \<rightharpoonup> Texture2D"

text \<open>
  Modelled from the spec: \<^verbatim>\<open>AbstractShaderProgram::setUniform\<close> is inherited from the
  base class and is not part of \<^verbatim>\<open>Phong.h\<close>. The spec gives it as the shader-program
  base's raw "write value to slot" operation: the slot at the given location holds the
  given value afterwards.
\<close>

definition setUniform :: "Int32 \<Rightarrow> uniform_value \<Rightarrow> State \<Rightarrow> State" where
  "setUniform location v s = s\<lparr>uniforms := (uniforms s)(location \<mapsto> v)\<rparr>"

section \<open>The member functions defined in the header\<close>

text \<open>\<^verbatim>\<open>Flags flags() const { return _flags; }\<close>\<close>

definition flags :: "Phong \<Rightarrow> Flags" where
  "flags p = flags_member p"

text \<open>The six setters defined inside the class body.\<close>

definition setShininess :: "Float \<Rightarrow> State \<Rightarrow> State" where
  "setShininess shininess s = setUniform (shininessUniform (self s)) (UFloat shininess) s"

definition setTransformationMatrix :: "Matrix4 \<Rightarrow> State \<Rightarrow> State" where
  "setTransformationMatrix matrix s =
     setUniform (transformationMatrixUniform (self s)) (UMatrix4 matrix) s"

definition setNormalMatrix :: "Matrix3x3 \<Rightarrow> State \<Rightarrow> State" where
  "setNormalMatrix matrix s = setUniform (normalMatrixUniform (self s)) (UMatrix3x3 matrix) s"

definition setProjectionMatrix :: "Matrix4 \<Rightarrow> State \<Rightarrow> State" where
  "setProjectionMatrix matrix s =
     setUniform (projectionMatrixUniform (self s)) (UMatrix4 matrix) s"

definition setLightPosition :: "Vector3 \<Rightarrow> State \<Rightarrow> State" where
  "setLightPosition light s = setUniform (lightUniform (self s)) (UVector3 light) s"

definition setLightColor :: "Color3 \<Rightarrow> State \<Rightarrow> State" where
  "setLightColor color s = setUniform (lightColorUniform (self s)) (UVector3 color) s"

text \<open>
  The three inline setters after the class:
  \<^verbatim>\<open>if(!(_flags & Flag::AmbientTexture)) setUniform(ambientColorUniform, color);\<close>
\<close>

definition setAmbientColor :: "Color3 \<Rightarrow> State \<Rightarrow> State" where
  "setAmbientColor color s =
     (if \<not> EnumSet_bool (EnumSet_and (flags_member (self s)) AmbientTexture)
      then setUniform (ambientColorUniform (self s)) (UVector3 color) s
      else s)"

definition setDiffuseColor :: "Color3 \<Rightarrow> State \<Rightarrow> State" where
  "setDiffuseColor color s =
     (if \<not> EnumSet_bool (EnumSet_and (flags_member (self s)) DiffuseTexture)
      then setUniform (diffuseColorUniform (self s)) (UVector3 color) s
      else s)"

definition setSpecularColor :: "Color3 \<Rightarrow> State \<Rightarrow> State" where
  "setSpecularColor color s =
     (if \<not> EnumSet_bool (EnumSet_and (flags_member (self s)) SpecularTexture)
      then setUniform (specularColorUniform (self s)) (UVector3 color) s
      else s)"

section \<open>Texture binding units\<close>

text \<open>
  The anonymous \<^verbatim>\<open>enum: Int\<close> of the class (present when \<^verbatim>\<open>MAGNUM_BUILD_DEPRECATED\<close> is
  defined) with its three enumerators and the values the source gives them.
\<close>

datatype TextureLayer = AmbientTextureLayer | DiffuseTextureLayer | SpecularTextureLayer

fun TextureLayer_value :: "TextureLayer \<Rightarrow> Int32" where
  "TextureLayer_value AmbientTextureLayer = 0"
| "TextureLayer_value DiffuseTextureLayer = 1"
| "TextureLayer_value SpecularTextureLayer = 2"

section \<open>Calls as data\<close>

text \<open>
  To speak about "any setter" and "any sequence of setter calls", a call of one of the
  nine setters defined in the header is a value: the setter and its argument.
  \<open>invoke\<close> runs the call; \<open>target\<close> is the location the setter hands to
  \<^verbatim>\<open>setUniform\<close>; \<open>run\<close> makes the calls of a list one after the other.
\<close>

datatype setter_call =
    SetAmbientColor Color3
  | SetDiffuseColor Color3
  | SetSpecularColor Color3
  | SetShininess Float
  | SetTransformationMatrix Matrix4
  | SetNormalMatrix Matrix3x3
  | SetProjectionMatrix Matrix4
  | SetLightPosition Vector3
  | SetLightColor Color3

fun invoke :: "setter_call \<Rightarrow> State \<Rightarrow> State" where
  "invoke (SetAmbientColor color) s = setAmbientColor color s"
| "invoke (SetDiffuseColor color) s = setDiffuseColor color s"
| "invoke (SetSpecularColor color) s = setSpecularColor color s"
| "invoke (SetShininess shininess) s = setShininess shininess s"
| "invoke (SetTransformationMatrix matrix) s = setTransformationMatrix matrix s"
| "invoke (SetNormalMatrix matrix) s = setNormalMatrix matrix s"
| "invoke (SetProjectionMatrix matrix) s = setProjectionMatrix matrix s"
| "invoke (SetLightPosition light) s = setLightPosition light s"
| "invoke (SetLightColor color) s = setLightColor color s"

fun target :: "setter_call \<Rightarrow> Phong \<Rightarrow> Int32" where
  "target (SetAmbientColor color) p = ambientColorUniform p"
| "target (SetDiffuseColor color) p = diffuseColorUniform p"
| "target (SetSpecularColor color) p = specularColorUniform p"
| "target (SetShininess shininess) p = shininessUniform p"
| "target (SetTransformationMatrix matrix) p = transformationMatrixUniform p"
| "target (SetNormalMatrix matrix) p = normalMatrixUniform p"
| "target (SetProjectionMatrix matrix) p = projectionMatrixUniform p"
| "target (SetLightPosition light) p = lightUniform p"
| "target (SetLightColor color) p = lightColorUniform p"

definition run :: "setter_call list \<Rightarrow> State \<Rightarrow> State" where
  "run cs s = fold invoke cs s"

text \<open>The nine stored locations of an object, in declaration order.\<close>

definition slot_handles :: "Phong \<Rightarrow> Int32 list" where
  "slot_handles p =
     [transformationMatrixUniform p, projectionMatrixUniform p, normalMatrixUniform p,
      lightUniform p, diffuseColorUniform p, ambientColorUniform p,
      specularColorUniform p, lightColorUniform p, shininessUniform p]"

text \<open>
  An operation of the class that the header defines is the query \<^verbatim>\<open>flags()\<close> or one
  of the nine setters. Its outcome is what it returns (\<^verbatim>\<open>_flags\<close>, or \<^verbatim>\<open>*this\<close>)
  together with the state it leaves; \<open>None\<close> stands for an operation that raises or
  aborts instead of returning. No statement of the header does that, so no equation of
  \<open>perform\<close> yields \<open>None\<close>.
\<close>

datatype operation = CallFlags | CallSetter setter_call

datatype returned = ReturnedFlags Flags | ReturnedSelf

fun perform :: "operation \<Rightarrow> State \<Rightarrow> (returned \<times> State) option" where
  "perform CallFlags s = Some (ReturnedFlags (flags (self s)), s)"
| "perform (CallSetter c) s = Some (ReturnedSelf, invoke c s)"

section \<open>Member functions that the header only declares\<close>

text \<open>
  Modelled from the spec: the texture-binding interface is not part of \<^verbatim>\<open>Phong.h\<close>.
  The spec gives it as "bind texture reference to binding unit N": the unit holds the
  texture afterwards.
\<close>

definition bind :: "Int32 \<Rightarrow> Texture2D \<Rightarrow> State \<Rightarrow> State" where
  "bind layer texture s = s\<lparr>textureUnits := (textureUnits s)(layer \<mapsto> texture)\<rparr>"

text \<open>
  Modelled from the spec: \<^verbatim>\<open>setAmbientTexture\<close> is declared in \<^verbatim>\<open>Phong.h\<close> and defined
  elsewhere, as are the other two texture setters. The spec: each "binds the given
  texture reference to the fixed binding unit associated with that channel" and "has
  effect only when the corresponding flag is set"; with the flag unset the call is
  dropped ("the source silently drops texture-setter calls when the guarding flag is
  unset").
\<close>

definition setAmbientTexture :: "Texture2D \<Rightarrow> State \<Rightarrow> State" where
  "setAmbientTexture texture s =
     (if EnumSet_bool (EnumSet_and (flags_member (self s)) AmbientTexture)
      then bind (TextureLayer_value AmbientTextureLayer) texture s
      else s)"

text \<open>
  Modelled from the spec: \<^verbatim>\<open>setDiffuseTexture\<close>, declared in \<^verbatim>\<open>Phong.h\<close> and defined
  elsewhere; the same rule with the diffuse flag and the diffuse binding unit.
\<close>

definition setDiffuseTexture :: "Texture2D \<Rightarrow> State \<Rightarrow> State" where
  "setDiffuseTexture texture s =
     (if EnumSet_bool (EnumSet_and (flags_member (self s)) DiffuseTexture)
      then bind (TextureLayer_value DiffuseTextureLayer) texture s
      else s)"

text \<open>
  Modelled from the spec: \<^verbatim>\<open>setSpecularTexture\<close>, declared in \<^verbatim>\<open>Phong.h\<close> and defined
  elsewhere; the same rule with the specular flag and the specular binding unit.
\<close>

definition setSpecularTexture :: "Texture2D \<Rightarrow> State \<Rightarrow> State" where
  "setSpecularTexture texture s =
     (if EnumSet_bool (EnumSet_and (flags_member (self s)) SpecularTexture)
      then bind (TextureLayer_value SpecularTextureLayer) texture s
      else s)"

text \<open>
  Modelled from the spec: \<^verbatim>\<open>setTextures\<close> is declared in \<^verbatim>\<open>Phong.h\<close> and defined
  elsewhere; its three arguments are pointers that may be null (\<open>None\<close>). The spec: "for
  each present reference whose corresponding flag is set, performs the equivalent
  single-texture bind", in one pass over ambient, diffuse, specular.
\<close>

definition setTextures ::
  "Texture2D option \<Rightarrow> Texture2D option \<Rightarrow> Texture2D option \<Rightarrow> State \<Rightarrow> State" where
  "setTextures ambient diffuse specular s =
     (case specular of None \<Rightarrow> id | Some t \<Rightarrow> setSpecularTexture t)
       ((case diffuse of None \<Rightarrow> id | Some t \<Rightarrow> setDiffuseTexture t)
         ((case ambient of None \<Rightarrow> id | Some t \<Rightarrow> setAmbientTexture t) s))"

text \<open>
  The bit patterns of the floats \<^verbatim>\<open>0.0f\<close>, \<^verbatim>\<open>1.0f\<close> and \<^verbatim>\<open>80.0f\<close> that the header's
  comments and the spec give as defaults (IEEE 754 binary32: sign, 8 exponent bits
  biased by 127, 23 fraction bits; \<open>80 = 1.25 * 2^6\<close>).
\<close>

definition Float_0 :: Float where
  "Float_0 = 0x00000000"

definition Float_1 :: Float where
  "Float_1 = 0x3F800000"

definition Float_80 :: Float where
  "Float_80 = 0x42A00000"

text \<open>
  Modelled from the spec: the names of the nine parameter slots that construction
  resolves (the spec's data model lists them; the header has only the members that
  hold their locations).
\<close>

datatype slot =
    TransformationMatrix | ProjectionMatrix | NormalMatrix | LightPosition | LightColor
  | AmbientColor | DiffuseColor | SpecularColor | Shininess

text \<open>
  Modelled from the spec: the constructor \<^verbatim>\<open>Phong(Flags)\<close> is declared in \<^verbatim>\<open>Phong.h\<close>
  and defined elsewhere. The spec: construction "resolves all nine parameter slots
  against that linked program and stores their handles", keeps the flag set, and "an
  implementer must arrange that the underlying parameter slots start at these values
  (e.g., by setting them immediately after slot resolution)": ambient colour
  \<open>(0,0,0)\<close>, specular colour and light colour \<open>(1,1,1)\<close>, shininess \<open>80.0\<close>. Slot
  resolution belongs to the shader-program base and is a parameter here, as are the
  texture bindings found at construction time, which the constructor leaves alone.
\<close>

definition create :: "(slot \<Rightarrow> Int32) \<Rightarrow> (Int32 \<rightharpoonup> Texture2D) \<Rightarrow> Flags \<Rightarrow> State" where
  "create resolve units fs =
     setUniform (resolve Shininess) (UFloat Float_80)
       (setUniform (resolve LightColor) (UVector3 (Float_1, Float_1, Float_1))
         (setUniform (resolve SpecularColor) (UVector3 (Float_1, Float_1, Float_1))
           (setUniform (resolve AmbientColor) (UVector3 (Float_0, Float_0, Float_0))
             \<lparr>self =
                \<lparr>transformationMatrixUniform = resolve TransformationMatrix,
                 projectionMatrixUniform = resolve ProjectionMatrix,
                 normalMatrixUniform = resolve NormalMatrix,
                 lightUniform = resolve LightPosition,
                 diffuseColorUniform = resolve DiffuseColor,
                 ambientColorUniform = resolve AmbientColor,
                 specularColorUniform = resolve SpecularColor,
                 lightColorUniform = resolve LightColor,
                 shininessUniform = resolve Shininess,
                 flags_member = fs\<rparr>,
              uniforms = Map.empty,
              textureUnits = units\<rparr>)))"

section \<open>Operations when a collaborator can fail\<close>

text \<open>
  The definitions above take the collaborators' calls as always completing. To state that
  the class raises no error of its own, the same member functions are given once more
  with an outcome: the new state, or a failure. A failure is either the one the layer
  could cause itself, a null pointer dereferenced, or an error \<open>'e\<close> that a collaborator
  returned and that passes through the operation unchanged.
\<close>

datatype 'e failure = NullDereference | CollaboratorFailure 'e

text \<open>
  Modelled from the spec: the three collaborators of the class, none of which is part of
  \<^verbatim>\<open>Phong.h\<close>. The shader-program base links the variant selected by the flags and
  resolves the named slots of the linked program, and writes a value to a slot; the
  texture-binding interface binds a texture to a unit. Each may end with an error of its
  own ("failures in the external shader-linking collaborator are not caught, wrapped, or
  retried at this layer; they propagate").
\<close>

record 'e collaborators =
  linkProgram :: "Flags \<Rightarrow> 'e + (slot \<Rightarrow> Int32)"
  writeUniform :: "Int32 \<Rightarrow> uniform_value \<Rightarrow> State \<Rightarrow> 'e + State"
  bindTexture :: "Int32 \<Rightarrow> Texture2D \<Rightarrow> State \<Rightarrow> 'e + State"

text \<open>
  A call of a collaborator inside an operation: its error ends the operation as a
  collaborator's failure, its result is the call's value.
\<close>

definition collaborator :: "'e + 'a \<Rightarrow> 'e failure + 'a" where
  "collaborator r = (case r of Inl e \<Rightarrow> Inl (CollaboratorFailure e) | Inr x \<Rightarrow> Inr x)"

text \<open>Reading through a pointer: a null pointer is the layer's own failure.\<close>

definition dereference :: "'a option \<Rightarrow> 'e failure + 'a" where
  "dereference p = (case p of None \<Rightarrow> Inl NullDereference | Some x \<Rightarrow> Inr x)"

text \<open>One statement after another: a failure of the first ends the operation.\<close>

definition and_then :: "'f + 'a \<Rightarrow> ('a \<Rightarrow> 'f + 'b) \<Rightarrow> 'f + 'b" where
  "and_then r f = (case r of Inl e \<Rightarrow> Inl e | Inr x \<Rightarrow> f x)"

text \<open>
  The nine setters defined in the header, statement by statement as above, with the
  call of \<^verbatim>\<open>setUniform\<close> handed to the collaborator \<open>writeUniform\<close>. Nothing else in their
  bodies can fail.
\<close>

definition setShininess_with :: "'e collaborators \<Rightarrow> Float \<Rightarrow> State \<Rightarrow> 'e failure + State" where
  "setShininess_with K shininess s =
     collaborator (writeUniform K (shininessUniform (self s)) (UFloat shininess) s)"

definition setTransformationMatrix_with ::
  "'e collaborators \<Rightarrow> Matrix4 \<Rightarrow> State \<Rightarrow> 'e failure + State" where
  "setTransformationMatrix_with K matrix s =
     collaborator (writeUniform K (transformationMatrixUniform (self s)) (UMatrix4 matrix) s)"

definition setNormalMatrix_with ::
  "'e collaborators \<Rightarrow> Matrix3x3 \<Rightarrow> State \<Rightarrow> 'e failure + State" where
  "setNormalMatrix_with K matrix s =
     collaborator (writeUniform K (normalMatrixUniform (self s)) (UMatrix3x3 matrix) s)"

definition setProjectionMatrix_with ::
  "'e collaborators \<Rightarrow> Matrix4 \<Rightarrow> State \<Rightarrow> 'e failure + State" where
  "setProjectionMatrix_with K matrix s =
     collaborator (writeUniform K (projectionMatrixUniform (self s)) (UMatrix4 matrix) s)"

definition setLightPosition_with ::
  "'e collaborators \<Rightarrow> Vector3 \<Rightarrow> State \<Rightarrow> 'e failure + State" where
  "setLightPosition_with K light s =
     collaborator (writeUniform K (lightUniform (self s)) (UVector3 light) s)"

definition setLightColor_with ::
  "'e collaborators \<Rightarrow> Color3 \<Rightarrow> State \<Rightarrow> 'e failure + State" where
  "setLightColor_with K color s =
     collaborator (writeUniform K (lightColorUniform (self s)) (UVector3 color) s)"

definition setAmbientColor_with ::
  "'e collaborators \<Rightarrow> Color3 \<Rightarrow> State \<Rightarrow> 'e failure + State" where
  "setAmbientColor_with K color s =
     (if \<not> EnumSet_bool (EnumSet_and (flags_member (self s)) AmbientTexture)
      then collaborator (writeUniform K (ambientColorUniform (self s)) (UVector3 color) s)
      else Inr s)"

definition setDiffuseColor_with ::
  "'e collaborators \<Rightarrow> Color3 \<Rightarrow> State \<Rightarrow> 'e failure + State" where
  "setDiffuseColor_with K color s =
     (if \<not> EnumSet_bool (EnumSet_and (flags_member (self s)) DiffuseTexture)
      then collaborator (writeUniform K (diffuseColorUniform (self s)) (UVector3 color) s)
      else Inr s)"

definition setSpecularColor_with ::
  "'e collaborators \<Rightarrow> Color3 \<Rightarrow> State \<Rightarrow> 'e failure + State" where
  "setSpecularColor_with K color s =
     (if \<not> EnumSet_bool (EnumSet_and (flags_member (self s)) SpecularTexture)
      then collaborator (writeUniform K (specularColorUniform (self s)) (UVector3 color) s)
      else Inr s)"

fun invoke_with :: "'e collaborators \<Rightarrow> setter_call \<Rightarrow> State \<Rightarrow> 'e failure + State" where
  "invoke_with K (SetAmbientColor color) s = setAmbientColor_with K color s"
| "invoke_with K (SetDiffuseColor color) s = setDiffuseColor_with K color s"
| "invoke_with K (SetSpecularColor color) s = setSpecularColor_with K color s"
| "invoke_with K (SetShininess shininess) s = setShininess_with K shininess s"
| "invoke_with K (SetTransformationMatrix matrix) s = setTransformationMatrix_with K matrix s"
| "invoke_with K (SetNormalMatrix matrix) s = setNormalMatrix_with K matrix s"
| "invoke_with K (SetProjectionMatrix matrix) s = setProjectionMatrix_with K matrix s"
| "invoke_with K (SetLightPosition light) s = setLightPosition_with K light s"
| "invoke_with K (SetLightColor color) s = setLightColor_with K color s"

text \<open>
  Modelled from the spec: \<^verbatim>\<open>setAmbientTexture\<close> as above (declared in \<^verbatim>\<open>Phong.h\<close>,
  defined elsewhere), with the bind handed to the collaborator \<open>bindTexture\<close>. The
  argument is a C++ reference, so there is no pointer to test.
\<close>

definition setAmbientTexture_with ::
  "'e collaborators \<Rightarrow> Texture2D \<Rightarrow> State \<Rightarrow> 'e failure + State" where
  "setAmbientTexture_with K texture s =
     (if EnumSet_bool (EnumSet_and (flags_member (self s)) AmbientTexture)
      then collaborator (bindTexture K (TextureLayer_value AmbientTextureLayer) texture s)
      else Inr s)"

text \<open>
  Modelled from the spec: \<^verbatim>\<open>setDiffuseTexture\<close> as above, with the bind handed to the
  collaborator.
\<close>

definition setDiffuseTexture_with ::
  "'e collaborators \<Rightarrow> Texture2D \<Rightarrow> State \<Rightarrow> 'e failure + State" where
  "setDiffuseTexture_with K texture s =
     (if EnumSet_bool (EnumSet_and (flags_member (self s)) DiffuseTexture)
      then collaborator (bindTexture K (TextureLayer_value DiffuseTextureLayer) texture s)
      else Inr s)"

text \<open>
  Modelled from the spec: \<^verbatim>\<open>setSpecularTexture\<close> as above, with the bind handed to the
  collaborator.
\<close>

definition setSpecularTexture_with ::
  "'e collaborators \<Rightarrow> Texture2D \<Rightarrow> State \<Rightarrow> 'e failure + State" where
  "setSpecularTexture_with K texture s =
     (if EnumSet_bool (EnumSet_and (flags_member (self s)) SpecularTexture)
      then collaborator (bindTexture K (TextureLayer_value SpecularTextureLayer) texture s)
      else Inr s)"

text \<open>
  Modelled from the spec: \<^verbatim>\<open>setTextures\<close> (declared in \<^verbatim>\<open>Phong.h\<close>, defined
  elsewhere). Its arguments are pointers, and the header allows \<^verbatim>\<open>nullptr\<close> for them.
  The spec: "for each present reference whose corresponding flag is set, performs the
  equivalent single-texture bind": a pointer is tested before it is read through, and an
  absent texture is skipped.
\<close>

definition setTextures_with ::
  "'e collaborators \<Rightarrow> Texture2D option \<Rightarrow> Texture2D option \<Rightarrow> Texture2D option \<Rightarrow> State
     \<Rightarrow> 'e failure + State" where
  "setTextures_with K ambient diffuse specular s =
     and_then
       (if ambient \<noteq> None
        then and_then (dereference ambient) (\<lambda>t. setAmbientTexture_with K t s)
        else Inr s)
       (\<lambda>s1. and_then
          (if diffuse \<noteq> None
           then and_then (dereference diffuse) (\<lambda>t. setDiffuseTexture_with K t s1)
           else Inr s1)
          (\<lambda>s2.
             if specular \<noteq> None
             then and_then (dereference specular) (\<lambda>t. setSpecularTexture_with K t s2)
             else Inr s2))"

text \<open>
  Modelled from the spec: the constructor (declared in \<^verbatim>\<open>Phong.h\<close>, defined
  elsewhere), as \<open>create\<close> above, with the link step first: the collaborator links the
  variant for the flags and gives the slot resolution of the linked program ("this
  component assumes slot resolution always succeeds once linking succeeds"), or fails,
  and "no error is raised by this layer if linking fails": the collaborator's error
  passes through. The four defaults are written through the collaborator.
\<close>

definition create_with ::
  "'e collaborators \<Rightarrow> (Int32 \<rightharpoonup> Texture2D) \<Rightarrow> Flags \<Rightarrow> 'e failure + State" where
  "create_with K units fs =
     and_then (collaborator (linkProgram K fs)) (\<lambda>resolve.
     and_then (collaborator (writeUniform K (resolve AmbientColor)
         (UVector3 (Float_0, Float_0, Float_0))
         \<lparr>self =
            \<lparr>transformationMatrixUniform = resolve TransformationMatrix,
             projectionMatrixUniform = resolve ProjectionMatrix,
             normalMatrixUniform = resolve NormalMatrix,
             lightUniform = resolve LightPosition,
             diffuseColorUniform = resolve DiffuseColor,
             ambientColorUniform = resolve AmbientColor,
             specularColorUniform = resolve SpecularColor,
             lightColorUniform = resolve LightColor,
             shininessUniform = resolve Shininess,
             flags_member = fs\<rparr>,
          uniforms = Map.empty,
          textureUnits = units\<rparr>)) (\<lambda>s1.
     and_then (collaborator (writeUniform K (resolve SpecularColor)
         (UVector3 (Float_1, Float_1, Float_1)) s1)) (\<lambda>s2.
     and_then (collaborator (writeUniform K (resolve LightColor)
         (UVector3 (Float_1, Float_1, Float_1)) s2)) (\<lambda>s3.
     collaborator (writeUniform K (resolve Shininess) (UFloat Float_80) s3)))))"

text \<open>
  Every operation of the class as a value: construction with a flag set, the query
  \<^verbatim>\<open>flags()\<close>, the nine setters of the header, the three texture setters and
  \<^verbatim>\<open>setTextures\<close> with its three pointers. \<open>perform_with\<close> runs one on a state and
  gives what it returns (\<^verbatim>\<open>_flags\<close>, or the object) with the state it leaves, or the
  failure it ends in. Construction takes place among the texture bindings of the state
  it is run on and puts the new object in the place of the old.
\<close>

datatype api_call =
    Construct Flags
  | GetFlags
  | UniformSetter setter_call
  | SetAmbientTexture Texture2D
  | SetDiffuseTexture Texture2D
  | SetSpecularTexture Texture2D
  | SetTextures "Texture2D option" "Texture2D option" "Texture2D option"

fun perform_with ::
  "'e collaborators \<Rightarrow> api_call \<Rightarrow> State \<Rightarrow> 'e failure + (returned \<times> State)" where
  "perform_with K (Construct fs) s =
     and_then (create_with K (textureUnits s) fs) (\<lambda>s'. Inr (ReturnedSelf, s'))"
| "perform_with K GetFlags s = Inr (ReturnedFlags (flags (self s)), s)"
| "perform_with K (UniformSetter c) s =
     and_then (invoke_with K c s) (\<lambda>s'. Inr (ReturnedSelf, s'))"
| "perform_with K (SetAmbientTexture texture) s =
     and_then (setAmbientTexture_with K texture s) (\<lambda>s'. Inr (ReturnedSelf, s'))"
| "perform_with K (SetDiffuseTexture texture) s =
     and_then (setDiffuseTexture_with K texture s) (\<lambda>s'. Inr (ReturnedSelf, s'))"
| "perform_with K (SetSpecularTexture texture) s =
     and_then (setSpecularTexture_with K texture s) (\<lambda>s'. Inr (ReturnedSelf, s'))"
| "perform_with K (SetTextures ambient diffuse specular) s =
     and_then (setTextures_with K ambient diffuse specular s) (\<lambda>s'. Inr (ReturnedSelf, s'))"

text \<open>
  The collaborators are well-behaved: linking succeeds for every flag set, every write
  and every bind completes.
\<close>

definition collaborators_succeed :: "'e collaborators \<Rightarrow> bool" where
  "collaborators_succeed K \<longleftrightarrow>
     (\<forall>fs. \<exists>resolve. linkProgram K fs = Inr resolve) \<and>
     (\<forall>l v s. \<exists>s'. writeUniform K l v s = Inr s') \<and>
     (\<forall>u t s. \<exists>s'. bindTexture K u t s = Inr s')"

text \<open>The errors that some call of some collaborator returns.\<close>

definition collaborator_errors :: "'e collaborators \<Rightarrow> 'e set" where
  "collaborator_errors K =
     {e. (\<exists>fs. linkProgram K fs = Inl e) \<or>
         (\<exists>l v s. writeUniform K l v s = Inl e) \<or>
         (\<exists>u t s. bindTexture K u t s = Inl e)}"

text \<open>
  The collaborators as the definitions of the earlier sections model them: linking
  gives a slot resolution, a write is \<open>setUniform\<close>, a bind is \<open>bind\<close>.
\<close>

definition modelled_collaborators :: "(slot \<Rightarrow> Int32) \<Rightarrow> 'e collaborators" where
  "modelled_collaborators resolve =
     \<lparr>linkProgram = (\<lambda>fs. Inr resolve),
      writeUniform = (\<lambda>l v s. Inr (setUniform l v s)),
      bindTexture = (\<lambda>u t s. Inr (bind u t s))\<rparr>"

section \<open>Sample objects\<close>

text \<open>
  A shader object with the nine locations numbered in declaration order and a given
  flag set, in a state where no uniform has been written and no texture is bound; and
  a slot resolution that gives the same numbering.
\<close>

definition sample_phong :: "Flags \<Rightarrow> Phong" where
  "sample_phong fs =
     \<lparr>transformationMatrixUniform = 0, projectionMatrixUniform = 1, normalMatrixUniform = 2,
      lightUniform = 3, diffuseColorUniform = 4, ambientColorUniform = 5,
      specularColorUniform = 6, lightColorUniform = 7, shininessUniform = 8,
      flags_member = fs\<rparr>"

definition sample_state :: "Flags \<Rightarrow> State" where
  "sample_state fs = \<lparr>self = sample_phong fs, uniforms = Map.empty, textureUnits = Map.empty\<rparr>"

fun sample_resolve :: "slot \<Rightarrow> Int32" where
  "sample_resolve TransformationMatrix = 0"
| "sample_resolve ProjectionMatrix = 1"
| "sample_resolve NormalMatrix = 2"
| "sample_resolve LightPosition = 3"
| "sample_resolve DiffuseColor = 4"
| "sample_resolve AmbientColor = 5"
| "sample_resolve SpecularColor = 6"
| "sample_resolve LightColor = 7"
| "sample_resolve Shininess = 8"

text \<open>Collaborators whose link step fails, with an error message as the error.\<close>

definition failing_link :: "string collaborators" where
  "failing_link =
     \<lparr>linkProgram = (\<lambda>fs. Inl ''link failed''),
      writeUniform = (\<lambda>l v s. Inr (setUniform l v s)),
      bindTexture = (\<lambda>u t s. Inr (bind u t s))\<rparr>"

section \<open>Basic facts\<close>

lemma flag_test_iff: "EnumSet_bool (EnumSet_and fs f) = has_flag fs f"
  by (cases f) (simp_all add: EnumSet_bool_def EnumSet_and_def has_flag_def
      bit_iff_and_push_bit_not_eq_0)

lemma setUniform_self [simp]: "self (setUniform l v s) = self s"
  by (simp add: setUniform_def)

lemma setUniform_textureUnits [simp]: "textureUnits (setUniform l v s) = textureUnits s"
  by (simp add: setUniform_def)

lemma setUniform_uniforms [simp]: "uniforms (setUniform l v s) = (uniforms s)(l \<mapsto> v)"
  by (simp add: setUniform_def)

lemma setUniform_twice [simp]: "setUniform l v (setUniform l v s) = setUniform l v s"
  by (simp add: setUniform_def)

lemmas setter_defs =
  setAmbientColor_def setDiffuseColor_def setSpecularColor_def setShininess_def
  setTransformationMatrix_def setNormalMatrix_def setProjectionMatrix_def
  setLightPosition_def setLightColor_def

lemma invoke_self: "self (invoke c s) = self s"
  by (cases c) (simp_all add: setter_defs)

lemma invoke_textureUnits: "textureUnits (invoke c s) = textureUnits s"
  by (cases c) (simp_all add: setter_defs)

lemma invoke_uniforms_other:
  "l \<noteq> target c (self s) \<Longrightarrow> uniforms (invoke c s) l = uniforms s l"
  by (cases c) (simp_all add: setter_defs)

lemma run_self: "self (run cs s) = self s"
  unfolding run_def by (induction cs arbitrary: s) (simp_all add: invoke_self)

lemma bind_self [simp]: "self (bind l t s) = self s"
  by (simp add: bind_def)

lemma bind_uniforms [simp]: "uniforms (bind l t s) = uniforms s"
  by (simp add: bind_def)

lemma bind_textureUnits [simp]: "textureUnits (bind l t s) = (textureUnits s)(l \<mapsto> t)"
  by (simp add: bind_def)

lemma bind_commute: "l \<noteq> l' \<Longrightarrow> bind l t (bind l' t' s) = bind l' t' (bind l t s)"
  by (simp add: bind_def fun_upd_twist)

lemmas texture_setter_defs =
  setAmbientTexture_def setDiffuseTexture_def setSpecularTexture_def

section \<open>Conditional colour setters\<close>

text \<open>
  C1. For every state of the object (whatever flag set it was constructed with) and every
  colour \<open>c\<close>: \<^verbatim>\<open>setAmbientColor(c)\<close> leaves \<open>c\<close> in the ambient colour slot when
  \<^verbatim>\<open>AmbientTexture\<close> is not in the flags, and returns the state as it was (no slot, no
  member, no binding changes) when the flag is in the flags. The same holds for the
  diffuse and specular colour with their flags. The setters are total functions: no
  branch of them fails.
\<close>

theorem color_setters_gated:
  "(\<not> has_flag (flags (self s)) AmbientTexture \<longrightarrow>
      uniforms (setAmbientColor c s) (ambientColorUniform (self s)) = Some (UVector3 c)) \<and>
   (has_flag (flags (self s)) AmbientTexture \<longrightarrow> setAmbientColor c s = s) \<and>
   (\<not> has_flag (flags (self s)) DiffuseTexture \<longrightarrow>
      uniforms (setDiffuseColor c s) (diffuseColorUniform (self s)) = Some (UVector3 c)) \<and>
   (has_flag (flags (self s)) DiffuseTexture \<longrightarrow> setDiffuseColor c s = s) \<and>
   (\<not> has_flag (flags (self s)) SpecularTexture \<longrightarrow>
      uniforms (setSpecularColor c s) (specularColorUniform (self s)) = Some (UVector3 c)) \<and>
   (has_flag (flags (self s)) SpecularTexture \<longrightarrow> setSpecularColor c s = s)"
  by (simp add: setAmbientColor_def setDiffuseColor_def setSpecularColor_def
      flag_test_iff flags_def)

text \<open>
  An object without flags takes the colour \<open>(1,1,1)\<close> into its ambient slot (location 5
  of the sample object); an object with \<^verbatim>\<open>AmbientTexture\<close> (flag byte 1) ignores the call.
\<close>

theorem color_setters_gated_witness:
  "\<not> has_flag (flags (self (sample_state 0))) AmbientTexture \<and>
   uniforms (setAmbientColor (Float_1, Float_1, Float_1) (sample_state 0)) 5
     = Some (UVector3 (Float_1, Float_1, Float_1)) \<and>
   has_flag (flags (self (sample_state 1))) AmbientTexture \<and>
   setAmbientColor (Float_1, Float_1, Float_1) (sample_state 1) = sample_state 1"
  using color_setters_gated [of "sample_state 0" "(Float_1, Float_1, Float_1)"]
    color_setters_gated [of "sample_state 1" "(Float_1, Float_1, Float_1)"]
  by (simp add: sample_state_def sample_phong_def flags_def has_flag_def)

section \<open>Unconditional setters\<close>

text \<open>
  C2. In every state, so for every flag set the object holds, each of the six
  unconditional setters leaves the value it was given in its own slot: the slot at the
  location stored in the matching member reads that value after the call. No flag is
  consulted.
\<close>

theorem unconditional_setters_write:
  "uniforms (setTransformationMatrix m4 s) (transformationMatrixUniform (self s))
     = Some (UMatrix4 m4) \<and>
   uniforms (setNormalMatrix m3 s) (normalMatrixUniform (self s)) = Some (UMatrix3x3 m3) \<and>
   uniforms (setProjectionMatrix m4 s) (projectionMatrixUniform (self s))
     = Some (UMatrix4 m4) \<and>
   uniforms (setLightPosition v s) (lightUniform (self s)) = Some (UVector3 v) \<and>
   uniforms (setLightColor c s) (lightColorUniform (self s)) = Some (UVector3 c) \<and>
   uniforms (setShininess x s) (shininessUniform (self s)) = Some (UFloat x)"
  by (simp add: setter_defs)

text \<open>
  C8. Calling one of the six unconditional setters a second time with the same value
  changes nothing: the state after the second call is the state after the first, and
  in particular the target slot reads the same value.
\<close>

theorem unconditional_setters_idempotent:
  "setTransformationMatrix m4 (setTransformationMatrix m4 s) = setTransformationMatrix m4 s \<and>
   uniforms (setTransformationMatrix m4 (setTransformationMatrix m4 s))
       (transformationMatrixUniform (self s))
     = uniforms (setTransformationMatrix m4 s) (transformationMatrixUniform (self s)) \<and>
   setNormalMatrix m3 (setNormalMatrix m3 s) = setNormalMatrix m3 s \<and>
   uniforms (setNormalMatrix m3 (setNormalMatrix m3 s)) (normalMatrixUniform (self s))
     = uniforms (setNormalMatrix m3 s) (normalMatrixUniform (self s)) \<and>
   setProjectionMatrix m4 (setProjectionMatrix m4 s) = setProjectionMatrix m4 s \<and>
   uniforms (setProjectionMatrix m4 (setProjectionMatrix m4 s))
       (projectionMatrixUniform (self s))
     = uniforms (setProjectionMatrix m4 s) (projectionMatrixUniform (self s)) \<and>
   setLightPosition v (setLightPosition v s) = setLightPosition v s \<and>
   uniforms (setLightPosition v (setLightPosition v s)) (lightUniform (self s))
     = uniforms (setLightPosition v s) (lightUniform (self s)) \<and>
   setLightColor c (setLightColor c s) = setLightColor c s \<and>
   uniforms (setLightColor c (setLightColor c s)) (lightColorUniform (self s))
     = uniforms (setLightColor c s) (lightColorUniform (self s)) \<and>
   setShininess x (setShininess x s) = setShininess x s \<and>
   uniforms (setShininess x (setShininess x s)) (shininessUniform (self s))
     = uniforms (setShininess x s) (shininessUniform (self s))"
  by (simp add: setter_defs)

section \<open>The object never changes\<close>

text \<open>
  C3. For an object whose \<^verbatim>\<open>_flags\<close> member holds \<open>F\<close> (what construction with \<open>F\<close>
  stores), \<^verbatim>\<open>flags()\<close> returns exactly \<open>F\<close> and leaves the state as it was; after any
  sequence of calls of the setters, \<^verbatim>\<open>flags()\<close> still returns \<open>F\<close>, the nine stored
  locations are the same, and indeed the whole object is the same.
\<close>

theorem flags_and_handles_immutable:
  assumes "flags_member (self s) = F"
  shows "flags (self s) = F \<and>
     perform CallFlags s = Some (ReturnedFlags F, s) \<and>
     flags (self (run cs s)) = F \<and>
     slot_handles (self (run cs s)) = slot_handles (self s) \<and>
     self (run cs s) = self s"
proof -
  have query: "flags (self s) = F"
    using assms by (simp add: flags_def)
  have object: "self (run cs s) = self s"
    by (rule run_self)
  from query object show ?thesis
    by simp
qed

text \<open>
  The sample object with flags \<^verbatim>\<open>AmbientTexture | SpecularTexture\<close> (byte 5), after
  three setter calls.
\<close>

theorem flags_and_handles_immutable_witness:
  "flags_member (self (sample_state 5)) = 5 \<and>
   flags (self (run [SetAmbientColor (Float_1, Float_1, Float_1), SetShininess Float_80,
       SetDiffuseColor (Float_0, Float_1, Float_0)] (sample_state 5))) = 5 \<and>
   slot_handles (self (run [SetAmbientColor (Float_1, Float_1, Float_1), SetShininess Float_80,
       SetDiffuseColor (Float_0, Float_1, Float_0)] (sample_state 5)))
     = [0, 1, 2, 3, 4, 5, 6, 7, 8]"
  using flags_and_handles_immutable [of "sample_state 5" 5
      "[SetAmbientColor (Float_1, Float_1, Float_1), SetShininess Float_80,
        SetDiffuseColor (Float_0, Float_1, Float_0)]"]
  by (simp add: sample_state_def sample_phong_def slot_handles_def)

text \<open>
  C10. A call of any of the nine setters leaves the object (its flag set and its nine
  stored locations) and every texture binding as they were, and changes the uniform
  storage at most at the one location the setter targets: every other location reads
  what it read before, and so does each of the other eight slots (each stored location
  that is not the targeted one).
\<close>

theorem setter_frame:
  "self (invoke c s) = self s \<and>
   flags (self (invoke c s)) = flags (self s) \<and>
   slot_handles (self (invoke c s)) = slot_handles (self s) \<and>
   textureUnits (invoke c s) = textureUnits s \<and>
   (\<forall>l. l \<noteq> target c (self s) \<longrightarrow> uniforms (invoke c s) l = uniforms s l) \<and>
   (\<forall>h \<in> set (slot_handles (self s)).
      h \<noteq> target c (self s) \<longrightarrow> uniforms (invoke c s) h = uniforms s h)"
proof -
  have object: "self (invoke c s) = self s"
    by (rule invoke_self)
  have units: "textureUnits (invoke c s) = textureUnits s"
    by (rule invoke_textureUnits)
  have other: "uniforms (invoke c s) l = uniforms s l" if "l \<noteq> target c (self s)" for l
    using that by (rule invoke_uniforms_other)
  from object units other show ?thesis
    by simp
qed

text \<open>
  After the diffuse colour has been written to location 4, setting the shininess
  (location 8) leaves the diffuse colour where it is.
\<close>

theorem setter_frame_witness:
  "(4 :: Int32) \<noteq>
     target (SetShininess Float_80)
       (self (invoke (SetDiffuseColor (Float_1, Float_0, Float_0)) (sample_state 0))) \<and>
   uniforms (invoke (SetShininess Float_80)
       (invoke (SetDiffuseColor (Float_1, Float_0, Float_0)) (sample_state 0))) 4
     = Some (UVector3 (Float_1, Float_0, Float_0)) \<and>
   self (invoke (SetShininess Float_80)
       (invoke (SetDiffuseColor (Float_1, Float_0, Float_0)) (sample_state 0)))
     = sample_phong 0"
  using setter_frame [of "SetShininess Float_80"
      "invoke (SetDiffuseColor (Float_1, Float_0, Float_0)) (sample_state 0)"]
  by (simp add: sample_state_def sample_phong_def setter_defs EnumSet_bool_def EnumSet_and_def)

section \<open>No operation fails\<close>

text \<open>First: no operation ends in a null pointer dereferenced.\<close>

lemmas with_defs =
  setAmbientColor_with_def setDiffuseColor_with_def setSpecularColor_with_def
  setShininess_with_def setTransformationMatrix_with_def setNormalMatrix_with_def
  setProjectionMatrix_with_def setLightPosition_with_def setLightColor_with_def

lemmas texture_with_defs =
  setAmbientTexture_with_def setDiffuseTexture_with_def setSpecularTexture_with_def

lemma collaborator_own [simp]: "collaborator r \<noteq> Inl NullDereference"
  by (simp add: collaborator_def split: sum.split)

lemma and_then_own:
  "and_then r f = Inl NullDereference \<longleftrightarrow>
     r = Inl NullDereference \<or> (\<exists>x. r = Inr x \<and> f x = Inl NullDereference)"
  by (simp add: and_then_def split: sum.split)

lemma and_then_Inr [simp]: "and_then (Inr x) f = f x"
  by (simp add: and_then_def)

lemma and_then_Inl [simp]: "and_then (Inl e) f = Inl e"
  by (simp add: and_then_def)

lemma invoke_with_own: "invoke_with K c s \<noteq> Inl NullDereference"
  by (cases c) (simp_all add: with_defs)

lemma texture_with_own:
  "setAmbientTexture_with K t s \<noteq> Inl NullDereference"
  "setDiffuseTexture_with K t s \<noteq> Inl NullDereference"
  "setSpecularTexture_with K t s \<noteq> Inl NullDereference"
  by (simp_all add: texture_with_defs)

lemma setTextures_with_own: "setTextures_with K a d sp s \<noteq> Inl NullDereference"
  by (cases a; cases d; cases sp)
    (simp_all add: setTextures_with_def dereference_def and_then_own texture_with_own)

lemma create_with_own: "create_with K units fs \<noteq> Inl NullDereference"
  by (simp add: create_with_def and_then_own)

lemma perform_with_own: "perform_with K op s \<noteq> Inl NullDereference"
  by (cases op)
    (simp_all add: and_then_own invoke_with_own texture_with_own setTextures_with_own
      create_with_own)

text \<open>Second: with well-behaved collaborators every operation returns.\<close>

lemma write_succeeds:
  "collaborators_succeed K \<Longrightarrow> \<exists>s'. collaborator (writeUniform K l v s) = Inr s'"
  by (metis collaborators_succeed_def collaborator_def sum.simps(6))

lemma bind_succeeds:
  "collaborators_succeed K \<Longrightarrow> \<exists>s'. collaborator (bindTexture K u t s) = Inr s'"
  by (metis collaborators_succeed_def collaborator_def sum.simps(6))

lemma link_succeeds:
  "collaborators_succeed K \<Longrightarrow> \<exists>r. collaborator (linkProgram K fs) = Inr r"
  by (metis collaborators_succeed_def collaborator_def sum.simps(6))

lemma invoke_with_succeeds:
  "collaborators_succeed K \<Longrightarrow> \<exists>s'. invoke_with K c s = Inr s'"
  by (cases c) (simp_all add: with_defs write_succeeds)

lemma texture_with_succeeds:
  assumes "collaborators_succeed K"
  shows "\<exists>s'. setAmbientTexture_with K t s = Inr s'"
    and "\<exists>s'. setDiffuseTexture_with K t s = Inr s'"
    and "\<exists>s'. setSpecularTexture_with K t s = Inr s'"
  using assms by (simp_all add: texture_with_defs bind_succeeds)

lemma setTextures_with_succeeds:
  assumes K: "collaborators_succeed K"
  shows "\<exists>s'. setTextures_with K a d sp s = Inr s'"
proof -
  obtain s1 where s1:
    "(if a \<noteq> None then and_then (dereference a) (\<lambda>t. setAmbientTexture_with K t s) else Inr s)
       = Inr s1"
    using texture_with_succeeds(1) [OF K] by (cases a) (auto simp: dereference_def)
  obtain s2 where s2:
    "(if d \<noteq> None then and_then (dereference d) (\<lambda>t. setDiffuseTexture_with K t s1) else Inr s1)
       = Inr s2"
    using texture_with_succeeds(2) [OF K] by (cases d) (auto simp: dereference_def)
  obtain s3 where s3:
    "(if sp \<noteq> None then and_then (dereference sp) (\<lambda>t. setSpecularTexture_with K t s2)
      else Inr s2) = Inr s3"
    using texture_with_succeeds(3) [OF K] by (cases sp) (auto simp: dereference_def)
  show ?thesis
    unfolding setTextures_with_def by (simp only: s1 s2 s3 and_then_Inr) simp
qed

lemma create_with_succeeds:
  assumes K: "collaborators_succeed K"
  shows "\<exists>s'. create_with K units fs = Inr s'"
proof -
  obtain r where r: "collaborator (linkProgram K fs) = Inr r"
    using link_succeeds [OF K] by blast
  show ?thesis
    unfolding create_with_def r and_then_Inr
    by (metis write_succeeds [OF K] and_then_Inr)
qed

lemma perform_with_succeeds:
  assumes K: "collaborators_succeed K"
  shows "\<exists>r s'. perform_with K op s = Inr (r, s')"
proof (cases op)
  case (Construct fs)
  then show ?thesis using create_with_succeeds [OF K, of "textureUnits s" fs] by auto
next
  case GetFlags
  then show ?thesis by simp
next
  case (UniformSetter c)
  then show ?thesis using invoke_with_succeeds [OF K, of c s] by auto
next
  case (SetAmbientTexture t)
  then show ?thesis using texture_with_succeeds(1) [OF K, of t s] by auto
next
  case (SetDiffuseTexture t)
  then show ?thesis using texture_with_succeeds(2) [OF K, of t s] by auto
next
  case (SetSpecularTexture t)
  then show ?thesis using texture_with_succeeds(3) [OF K, of t s] by auto
next
  case (SetTextures a d sp)
  then show ?thesis using setTextures_with_succeeds [OF K, of a d sp s] by auto
qed

text \<open>Third: an error that an operation ends in is an error of a collaborator.\<close>

lemma and_then_Inl_iff:
  "and_then r f = Inl x \<longleftrightarrow> r = Inl x \<or> (\<exists>y. r = Inr y \<and> f y = Inl x)"
  by (simp add: and_then_def split: sum.split)

lemma write_error:
  "collaborator (writeUniform K l v s) = Inl (CollaboratorFailure e) \<Longrightarrow>
     e \<in> collaborator_errors K"
  by (auto simp: collaborator_def collaborator_errors_def split: sum.splits)

lemma bind_error:
  "collaborator (bindTexture K u t s) = Inl (CollaboratorFailure e) \<Longrightarrow>
     e \<in> collaborator_errors K"
  by (auto simp: collaborator_def collaborator_errors_def split: sum.splits)

lemma link_error:
  "collaborator (linkProgram K fs) = Inl (CollaboratorFailure e) \<Longrightarrow>
     e \<in> collaborator_errors K"
  by (auto simp: collaborator_def collaborator_errors_def split: sum.splits)

lemma invoke_with_error:
  "invoke_with K c s = Inl (CollaboratorFailure e) \<Longrightarrow> e \<in> collaborator_errors K"
  by (cases c) (auto simp: with_defs dest: write_error split: if_splits)

lemma texture_with_error:
  "setAmbientTexture_with K t s = Inl (CollaboratorFailure e) \<Longrightarrow> e \<in> collaborator_errors K"
  "setDiffuseTexture_with K t s = Inl (CollaboratorFailure e) \<Longrightarrow> e \<in> collaborator_errors K"
  "setSpecularTexture_with K t s = Inl (CollaboratorFailure e) \<Longrightarrow> e \<in> collaborator_errors K"
  by (auto simp: texture_with_defs dest: bind_error split: if_splits)

lemma setTextures_with_error:
  "setTextures_with K a d sp s = Inl (CollaboratorFailure e) \<Longrightarrow> e \<in> collaborator_errors K"
  by (cases a; cases d; cases sp)
    (auto simp: setTextures_with_def dereference_def and_then_Inl_iff dest: texture_with_error)

lemma create_with_error:
  "create_with K units fs = Inl (CollaboratorFailure e) \<Longrightarrow> e \<in> collaborator_errors K"
  by (auto simp: create_with_def and_then_Inl_iff dest: link_error write_error)

lemma perform_with_error:
  "perform_with K op s = Inl (CollaboratorFailure e) \<Longrightarrow> e \<in> collaborator_errors K"
  by (cases op)
    (auto simp: and_then_Inl_iff
      dest: invoke_with_error texture_with_error setTextures_with_error create_with_error)

text \<open>
  On the modelled collaborators the operations are the functions of the earlier
  sections.
\<close>

lemma modelled_collaborators_succeed: "collaborators_succeed (modelled_collaborators resolve)"
  by (simp add: collaborators_succeed_def modelled_collaborators_def)

lemma collaborator_Inr [simp]: "collaborator (Inr x) = Inr x"
  by (simp add: collaborator_def)

lemma collaborator_Inl [simp]: "collaborator (Inl e) = Inl (CollaboratorFailure e)"
  by (simp add: collaborator_def)

lemma invoke_with_modelled:
  "invoke_with (modelled_collaborators resolve) c s = Inr (invoke c s)"
  by (cases c) (simp_all add: with_defs setter_defs modelled_collaborators_def)

lemma texture_with_modelled:
  "setAmbientTexture_with (modelled_collaborators resolve) t s = Inr (setAmbientTexture t s)"
  "setDiffuseTexture_with (modelled_collaborators resolve) t s = Inr (setDiffuseTexture t s)"
  "setSpecularTexture_with (modelled_collaborators resolve) t s = Inr (setSpecularTexture t s)"
  by (simp_all add: texture_with_defs texture_setter_defs modelled_collaborators_def)

lemma setTextures_with_modelled:
  "setTextures_with (modelled_collaborators resolve) a d sp s = Inr (setTextures a d sp s)"
  by (cases a; cases d; cases sp)
    (simp_all add: setTextures_with_def setTextures_def dereference_def texture_with_modelled)

lemma create_with_modelled:
  "create_with (modelled_collaborators resolve) units fs = Inr (create resolve units fs)"
  by (simp add: create_with_def create_def modelled_collaborators_def)

lemma perform_with_modelled:
  "perform_with (modelled_collaborators resolve) op s =
     Inr (case op of
            Construct fs \<Rightarrow> (ReturnedSelf, create resolve (textureUnits s) fs)
          | GetFlags \<Rightarrow> (ReturnedFlags (flags (self s)), s)
          | UniformSetter c \<Rightarrow> (ReturnedSelf, invoke c s)
          | SetAmbientTexture t \<Rightarrow> (ReturnedSelf, setAmbientTexture t s)
          | SetDiffuseTexture t \<Rightarrow> (ReturnedSelf, setDiffuseTexture t s)
          | SetSpecularTexture t \<Rightarrow> (ReturnedSelf, setSpecularTexture t s)
          | SetTextures a d sp \<Rightarrow> (ReturnedSelf, setTextures a d sp s))"
  by (cases op)
    (simp_all add: invoke_with_modelled texture_with_modelled setTextures_with_modelled
      create_with_modelled)

text \<open>
  C9. Every operation of the class (construction, \<^verbatim>\<open>flags()\<close>, the colour, matrix and
  scalar setters, the texture setters and \<^verbatim>\<open>setTextures\<close>), on every state and so for
  every flag set, with every argument and every combination of null pointers, raises no
  error of its own: it never ends in a null pointer dereferenced, and an error it ends
  in is one that a collaborator returned. With collaborators that succeed, every
  operation returns a result and a state; so it does on the modelled collaborators.
\<close>

theorem operations_raise_no_error:
  "perform_with K op s \<noteq> Inl NullDereference \<and>
   (\<forall>e. perform_with K op s = Inl (CollaboratorFailure e) \<longrightarrow> e \<in> collaborator_errors K) \<and>
   (collaborators_succeed K \<longrightarrow> (\<exists>r s'. perform_with K op s = Inr (r, s'))) \<and>
   (\<exists>r s'. perform_with (modelled_collaborators resolve) op s = Inr (r, s'))"
proof (intro conjI impI allI)
  show "perform_with K op s \<noteq> Inl NullDereference"
    by (rule perform_with_own)
  show "e \<in> collaborator_errors K" if "perform_with K op s = Inl (CollaboratorFailure e)" for e
    using that by (rule perform_with_error)
  show "\<exists>r s'. perform_with K op s = Inr (r, s')" if "collaborators_succeed K"
    using that by (rule perform_with_succeeds)
  show "\<exists>r s'. perform_with (modelled_collaborators resolve) op s = Inr (r, s')"
    using modelled_collaborators_succeed by (rule perform_with_succeeds)
qed

text \<open>
  \<^verbatim>\<open>setTextures(nullptr, &t11, nullptr)\<close> on the sample object with all three flags
  binds texture 11 to unit 1 and returns; construction with a link step that fails ends
  in the collaborator's error.
\<close>

theorem operations_raise_no_error_witness:
  "collaborators_succeed (modelled_collaborators sample_resolve :: unit collaborators) \<and>
   perform_with (modelled_collaborators sample_resolve :: unit collaborators)
       (SetTextures None (Some 11) None) (sample_state 7)
     = Inr (ReturnedSelf, (sample_state 7)\<lparr>textureUnits := [1 \<mapsto> 11]\<rparr>) \<and>
   perform_with failing_link (Construct 1) (sample_state 0)
     = Inl (CollaboratorFailure ''link failed'') \<and>
   ''link failed'' \<in> collaborator_errors failing_link"
proof -
  let ?K = "modelled_collaborators sample_resolve :: unit collaborators"
  have ok: "collaborators_succeed ?K"
    by (simp add: collaborators_succeed_def modelled_collaborators_def)
  have "\<exists>r s'. perform_with ?K (SetTextures None (Some 11) None) (sample_state 7) = Inr (r, s')"
    using ok operations_raise_no_error [of ?K "SetTextures None (Some 11) None" "sample_state 7"]
    by blast
  moreover have "perform_with ?K (SetTextures None (Some 11) None) (sample_state 7)
      = Inr (ReturnedSelf, (sample_state 7)\<lparr>textureUnits := [1 \<mapsto> 11]\<rparr>)"
    by (simp add: setTextures_with_def setDiffuseTexture_with_def dereference_def
        modelled_collaborators_def EnumSet_bool_def EnumSet_and_def bind_def
        sample_state_def sample_phong_def)
  moreover have failed: "perform_with failing_link (Construct 1) (sample_state 0)
      = Inl (CollaboratorFailure ''link failed'')"
    by (simp add: create_with_def failing_link_def)
  moreover have "''link failed'' \<in> collaborator_errors failing_link"
    using failed operations_raise_no_error [of failing_link "Construct 1" "sample_state 0"]
    by blast
  ultimately show ?thesis
    using ok by blast
qed

section \<open>Binding units\<close>

text \<open>
  C7. The binding unit of each channel is a fixed small integer: 0 for the ambient
  texture, 1 for the diffuse texture, 2 for the specular texture.
\<close>

theorem texture_layer_values:
  "sint (TextureLayer_value AmbientTextureLayer) = 0 \<and>
   sint (TextureLayer_value DiffuseTextureLayer) = 1 \<and>
   sint (TextureLayer_value SpecularTextureLayer) = 2"
  by simp

section \<open>Texture setters\<close>

text \<open>
  C6. Each texture setter binds the given texture to the binding unit of its channel
  when the matching flag is in the object's flags, and only then: with the flag unset
  the call leaves the state as it was.
\<close>

theorem texture_setters_gated:
  "(has_flag (flags (self s)) AmbientTexture \<longrightarrow>
      textureUnits (setAmbientTexture t s) (TextureLayer_value AmbientTextureLayer) = Some t) \<and>
   (\<not> has_flag (flags (self s)) AmbientTexture \<longrightarrow> setAmbientTexture t s = s) \<and>
   (has_flag (flags (self s)) DiffuseTexture \<longrightarrow>
      textureUnits (setDiffuseTexture t s) (TextureLayer_value DiffuseTextureLayer) = Some t) \<and>
   (\<not> has_flag (flags (self s)) DiffuseTexture \<longrightarrow> setDiffuseTexture t s = s) \<and>
   (has_flag (flags (self s)) SpecularTexture \<longrightarrow>
      textureUnits (setSpecularTexture t s) (TextureLayer_value SpecularTextureLayer) = Some t) \<and>
   (\<not> has_flag (flags (self s)) SpecularTexture \<longrightarrow> setSpecularTexture t s = s)"
  by (simp add: texture_setter_defs flag_test_iff flags_def)

text \<open>
  The sample object with \<^verbatim>\<open>DiffuseTexture\<close> only (byte 2): the diffuse texture is bound
  to unit 1, a call of the ambient texture setter is dropped.
\<close>

theorem texture_setters_gated_witness:
  "has_flag (flags (self (sample_state 2))) DiffuseTexture \<and>
   textureUnits (setDiffuseTexture 42 (sample_state 2)) 1 = Some 42 \<and>
   \<not> has_flag (flags (self (sample_state 2))) AmbientTexture \<and>
   setAmbientTexture 42 (sample_state 2) = sample_state 2"
  using texture_setters_gated [of "sample_state 2" 42]
  by (simp add: sample_state_def sample_phong_def flags_def has_flag_def)

text \<open>
  C5. On an object with all three texture flags, \<^verbatim>\<open>setTextures(a, d, s)\<close> with three
  textures present ends in the same state, and so in the same texture bound to each
  binding unit, as the three single texture setters called in any of their six orders:
  \<open>a\<close> on the ambient unit, \<open>d\<close> on the diffuse unit, \<open>s\<close> on the specular unit.
\<close>

theorem setTextures_as_single_setters:
  assumes "has_flag (flags (self st)) AmbientTexture"
    and "has_flag (flags (self st)) DiffuseTexture"
    and "has_flag (flags (self st)) SpecularTexture"
  shows
   "setSpecularTexture s (setDiffuseTexture d (setAmbientTexture a st))
      = setTextures (Some a) (Some d) (Some s) st \<and>
    setDiffuseTexture d (setSpecularTexture s (setAmbientTexture a st))
      = setTextures (Some a) (Some d) (Some s) st \<and>
    setSpecularTexture s (setAmbientTexture a (setDiffuseTexture d st))
      = setTextures (Some a) (Some d) (Some s) st \<and>
    setAmbientTexture a (setSpecularTexture s (setDiffuseTexture d st))
      = setTextures (Some a) (Some d) (Some s) st \<and>
    setDiffuseTexture d (setAmbientTexture a (setSpecularTexture s st))
      = setTextures (Some a) (Some d) (Some s) st \<and>
    setAmbientTexture a (setDiffuseTexture d (setSpecularTexture s st))
      = setTextures (Some a) (Some d) (Some s) st \<and>
    textureUnits (setTextures (Some a) (Some d) (Some s) st)
      (TextureLayer_value AmbientTextureLayer) = Some a \<and>
    textureUnits (setTextures (Some a) (Some d) (Some s) st)
      (TextureLayer_value DiffuseTextureLayer) = Some d \<and>
    textureUnits (setTextures (Some a) (Some d) (Some s) st)
      (TextureLayer_value SpecularTextureLayer) = Some s"
  using assms
  by (simp add: setTextures_def texture_setter_defs flag_test_iff flags_def bind_commute)

text \<open>
  The sample object with all three flags (byte 7) and the textures 10, 11 and 12: the
  specular, ambient, diffuse order ends with the bindings of the batched call.
\<close>

theorem setTextures_as_single_setters_witness:
  "has_flag (flags (self (sample_state 7))) AmbientTexture \<and>
   has_flag (flags (self (sample_state 7))) DiffuseTexture \<and>
   has_flag (flags (self (sample_state 7))) SpecularTexture \<and>
   textureUnits (setDiffuseTexture 11 (setAmbientTexture 10 (setSpecularTexture 12
       (sample_state 7))))
     = textureUnits (setTextures (Some 10) (Some 11) (Some 12) (sample_state 7)) \<and>
   textureUnits (setTextures (Some 10) (Some 11) (Some 12) (sample_state 7)) 0 = Some 10 \<and>
   textureUnits (setTextures (Some 10) (Some 11) (Some 12) (sample_state 7)) 1 = Some 11 \<and>
   textureUnits (setTextures (Some 10) (Some 11) (Some 12) (sample_state 7)) 2 = Some 12"
proof -
  have f: "has_flag (flags (self (sample_state 7))) AmbientTexture"
    "has_flag (flags (self (sample_state 7))) DiffuseTexture"
    "has_flag (flags (self (sample_state 7))) SpecularTexture"
    by (simp_all add: sample_state_def sample_phong_def flags_def has_flag_def)
  show ?thesis
    using f setTextures_as_single_setters [OF f, of 12 11 10]
    by simp
qed

text \<open>
  The texture setters write no uniform and leave the object as it is; a single texture
  setter changes no binding unit but its own.
\<close>

lemma texture_setters_frame:
  "self (setAmbientTexture t s) = self s \<and> uniforms (setAmbientTexture t s) = uniforms s \<and>
   self (setDiffuseTexture t s) = self s \<and> uniforms (setDiffuseTexture t s) = uniforms s \<and>
   self (setSpecularTexture t s) = self s \<and> uniforms (setSpecularTexture t s) = uniforms s \<and>
   self (setTextures a d sp s) = self s \<and> uniforms (setTextures a d sp s) = uniforms s"
  by (simp add: setTextures_def texture_setter_defs split: option.split)

lemma texture_setters_other_units:
  "u \<noteq> TextureLayer_value AmbientTextureLayer \<Longrightarrow>
     textureUnits (setAmbientTexture t s) u = textureUnits s u"
  "u \<noteq> TextureLayer_value DiffuseTextureLayer \<Longrightarrow>
     textureUnits (setDiffuseTexture t s) u = textureUnits s u"
  "u \<noteq> TextureLayer_value SpecularTextureLayer \<Longrightarrow>
     textureUnits (setSpecularTexture t s) u = textureUnits s u"
  by (simp_all add: texture_setter_defs)

lemma setTextures_other_units:
  "u \<noteq> TextureLayer_value AmbientTextureLayer \<Longrightarrow>
   u \<noteq> TextureLayer_value DiffuseTextureLayer \<Longrightarrow>
   u \<noteq> TextureLayer_value SpecularTextureLayer \<Longrightarrow>
     textureUnits (setTextures a d sp s) u = textureUnits s u"
  by (simp add: setTextures_def texture_setter_defs split: option.split)

section \<open>Construction\<close>

text \<open>
  C4. Right after construction, for every flag set and before any setter call, the
  slots read the documented defaults: ambient colour \<open>(0,0,0)\<close>, specular colour
  \<open>(1,1,1)\<close>, light colour \<open>(1,1,1)\<close>, shininess \<open>80.0\<close>. The four slots are different
  slots: slot resolution gives them four different locations.
\<close>

theorem defaults_after_construction:
  assumes "distinct (map resolve [AmbientColor, SpecularColor, LightColor, Shininess])"
  shows
   "uniforms (create resolve units fs) (ambientColorUniform (self (create resolve units fs)))
      = Some (UVector3 (Float_0, Float_0, Float_0)) \<and>
    uniforms (create resolve units fs) (specularColorUniform (self (create resolve units fs)))
      = Some (UVector3 (Float_1, Float_1, Float_1)) \<and>
    uniforms (create resolve units fs) (lightColorUniform (self (create resolve units fs)))
      = Some (UVector3 (Float_1, Float_1, Float_1)) \<and>
    uniforms (create resolve units fs) (shininessUniform (self (create resolve units fs)))
      = Some (UFloat Float_80)"
  using assms by (auto simp add: create_def)

text \<open>
  Construction with \<^verbatim>\<open>AmbientTexture\<close> (byte 1) and the sample numbering of the slots.
\<close>

theorem defaults_after_construction_witness:
  "distinct (map sample_resolve [AmbientColor, SpecularColor, LightColor, Shininess]) \<and>
   uniforms (create sample_resolve Map.empty 1) 5 = Some (UVector3 (Float_0, Float_0, Float_0)) \<and>
   uniforms (create sample_resolve Map.empty 1) 6 = Some (UVector3 (Float_1, Float_1, Float_1)) \<and>
   uniforms (create sample_resolve Map.empty 1) 7 = Some (UVector3 (Float_1, Float_1, Float_1)) \<and>
   uniforms (create sample_resolve Map.empty 1) 8 = Some (UFloat Float_80)"
proof -
  have d: "distinct (map sample_resolve [AmbientColor, SpecularColor, LightColor, Shininess])"
    by simp
  show ?thesis
    using d defaults_after_construction [OF d, of Map.empty 1]
    by (simp add: create_def)
qed

text \<open>
  The constructed object holds the flag set it was given, the locations that slot
  resolution returned, and the texture bindings it found.
\<close>

lemma create_object:
  "flags (self (create resolve units fs)) = fs \<and>
   slot_handles (self (create resolve units fs))
     = map resolve [TransformationMatrix, ProjectionMatrix, NormalMatrix, LightPosition,
         DiffuseColor, AmbientColor, SpecularColor, LightColor, Shininess] \<and>
   textureUnits (create resolve units fs) = units"
  by (simp add: create_def flags_def slot_handles_def)

end
